theory Spec2Isabelle
  imports Complex_Main
begin

section \<open>pyMIC offload arrays: a shallow embedding of \<^verbatim>\<open>pymic/offload_array.py\<close>\<close>

text \<open>
  The module defines one class, \<^verbatim>\<open>OffloadArray\<close>: a handle that pairs a host-side
  \<^verbatim>\<open>numpy.ndarray\<close> (the host mirror) with a buffer on a coprocessor, reachable through an
  offload stream. Objects are mutable and referenced by identity, so handles live in an
  explicit store and a method takes the reference of \<^verbatim>\<open>self\<close>. Every method returns the
  pair of its outcome (\<open>Inl\<close> the exception raised, \<open>Inr\<close> the value returned) and the world
  after the call, so that what an exception leaves behind is visible.
\<close>

subsection \<open>Values of the host language and of numpy\<close>

text \<open>The numpy element types the model distinguishes, and their widths in bytes.\<close>

datatype dtype = bool8 | int32 | int64 | uint64 | float32 | float64 | complex64 | complex128

fun itemsize :: "dtype \<Rightarrow> int" where
  "itemsize bool8 = 1"
| "itemsize int32 = 4"
| "itemsize int64 = 8"
| "itemsize uint64 = 8"
| "itemsize float32 = 4"
| "itemsize float64 = 8"
| "itemsize complex64 = 8"
| "itemsize complex128 = 16"

text \<open>
  Scalars a caller can pass: Python's \<^verbatim>\<open>int\<close>, \<^verbatim>\<open>float\<close>, \<^verbatim>\<open>complex\<close> and \<^verbatim>\<open>bool\<close>, and numpy's
  typed scalars such as \<^verbatim>\<open>numpy.float32(1)\<close>. \<open>type_of\<close> is Python's \<^verbatim>\<open>type(value)\<close>.
\<close>

datatype py_type = py_int | py_float | py_complex | py_bool | numpy_scalar dtype

datatype py_value =
    IntV int
  | FloatV real
  | ComplexV complex
  | BoolV bool
  | NumpyV dtype complex

fun type_of :: "py_value \<Rightarrow> py_type" where
  "type_of (IntV _) = py_int"
| "type_of (FloatV _) = py_float"
| "type_of (ComplexV _) = py_complex"
| "type_of (BoolV _) = py_bool"
| "type_of (NumpyV d _) = numpy_scalar d"

text \<open>
  The source compares \<^verbatim>\<open>self.dtype\<close>, a \<^verbatim>\<open>numpy.dtype\<close>, with Python types
  (\<^verbatim>\<open>self.dtype == int\<close>, \<^verbatim>\<open>self.dtype != type(value)\<close>). numpy converts the type to a dtype
  first and compares the two dtypes: on the 64-bit Linux hosts the package runs on,
  \<^verbatim>\<open>int\<close> is \<^verbatim>\<open>int64\<close>, \<^verbatim>\<open>float\<close> is \<^verbatim>\<open>float64\<close>, \<^verbatim>\<open>complex\<close> is \<^verbatim>\<open>complex128\<close>.
\<close>

fun numpy_dtype :: "py_type \<Rightarrow> dtype" where
  "numpy_dtype py_int = int64"
| "numpy_dtype py_float = float64"
| "numpy_dtype py_complex = complex128"
| "numpy_dtype py_bool = bool8"
| "numpy_dtype (numpy_scalar d) = d"

definition dtype_eq :: "dtype \<Rightarrow> py_type \<Rightarrow> bool" where
  "dtype_eq d t = (d = numpy_dtype t)"

datatype mem_order = order_C | order_F

text \<open>
  A host array: \<open>buf\<close> names the memory it occupies (two arrays with the same \<open>buf\<close> are
  views of the same memory), the rest is its metadata.
\<close>

record ndarray =
  buf :: nat
  ashape :: "int list"
  adtype :: dtype
  aorder :: mem_order

subsection \<open>Exceptions\<close>

text \<open>Every \<^verbatim>\<open>ValueError\<close> of the module, told apart by its message.\<close>

datatype value_error =
    ShapesNeedToMatch
  | DataTypesDoNotMatch
  | TotalSizeUnchanged
  | DifferentDevice
  | NoRepresentationOfZero
  | NegativeDimensions
  | CannotReshape

datatype py_error =
    AssertionError
  | ValueError value_error
  | TypeError
  | AttributeError
  | KeyError
  | NameError
  | IndexError

subsection \<open>Devices, streams and the commands a stream receives\<close>

text \<open>
  Devices and streams are objects of other modules. The model keeps their identity
  (\<open>dev_ref\<close>, \<open>stream_ref\<close>), which is what \<^verbatim>\<open>is\<close> compares, and the attributes this
  module reads: \<^verbatim>\<open>device.device_id\<close> and \<^verbatim>\<open>stream.get_device()\<close>.
\<close>

record OffloadDevice =
  dev_ref :: nat
  device_id :: int

record OffloadStream =
  stream_ref :: nat
  get_device :: OffloadDevice

datatype kernel =
    pymic_offload_array_add
  | pymic_offload_array_sub
  | pymic_offload_array_mul
  | pymic_offload_array_pow
  | pymic_offload_array_fill
  | pymic_offload_array_setslice

text \<open>
  An argument of \<^verbatim>\<open>stream.invoke\<close>: an integer, a host array (or \<^verbatim>\<open>None\<close>, what
  \<^verbatim>\<open>self.array\<close> is on a handle without a mirror), a handle, or a scalar.
\<close>

datatype arg =
    ArgInt int
  | ArgArray "ndarray option"
  | ArgHandle nat
  | ArgValue py_value

text \<open>
  The stream's methods are outside this module. Each call is recorded, in order, with
  the stream that received it: \<^verbatim>\<open>_buffer_allocate\<close>, \<^verbatim>\<open>_buffer_release\<close>,
  \<^verbatim>\<open>_buffer_update_on_target\<close>, \<^verbatim>\<open>_buffer_update_on_host\<close> and \<^verbatim>\<open>invoke\<close> (with the library
  the kernel was taken from).
\<close>

datatype command =
    buffer_allocate ndarray
  | buffer_release "ndarray option"
  | buffer_update_on_target "ndarray option"
  | buffer_update_on_host "ndarray option"
  | invoke nat kernel "arg list"

subsection \<open>Handles and the world\<close>

text \<open>
  The attributes \<^verbatim>\<open>__init__\<close> sets. \<open>base\<close> is the reference of the handle this one is a
  view of; \<open>array\<close> is \<open>None\<close> when the handle was built with \<^verbatim>\<open>alloc_arr=False\<close> and no
  base (the class attribute \<^verbatim>\<open>array = None\<close> then shows through); \<open>library\<close> is
  \<^verbatim>\<open>self._library\<close>.
\<close>

record OffloadArray =
  order :: mem_order
  dtype :: dtype
  base :: "nat option"
  device :: OffloadDevice
  stream :: OffloadStream
  size_oa :: int
  shape :: "int list"
  nbytes :: int
  array :: "ndarray option"
  library :: nat

text \<open>
  The world: the store of handles (references below \<open>next_ref\<close> are allocated), the
  next fresh host buffer, the commands the streams have received so far, and the module
  global \<^verbatim>\<open>_offload_libraries\<close>, a dictionary from device ids to loaded libraries.
\<close>

record world =
  heap :: "nat \<Rightarrow> OffloadArray"
  next_ref :: nat
  next_buf :: nat
  cmds :: "(OffloadStream \<times> command) list"
  offload_libraries :: "int \<rightharpoonup> nat"

type_synonym 'a outcome = "(py_error + 'a) \<times> world"

definition enqueue :: "world \<Rightarrow> OffloadStream \<Rightarrow> command \<Rightarrow> world" where
  "enqueue w s c = w\<lparr>cmds := cmds w @ [(s, c)]\<rparr>"

subsection \<open>numpy: allocating and reshaping a host array\<close>

text \<open>
  \<^verbatim>\<open>numpy.empty(shape, dtype, order)\<close> refuses a negative dimension with a
  \<^verbatim>\<open>ValueError\<close> and otherwise returns an array on fresh memory.
\<close>

definition numpy_empty :: "world \<Rightarrow> int list \<Rightarrow> dtype \<Rightarrow> mem_order \<Rightarrow> ndarray outcome" where
  "numpy_empty w shp dt ord =
     (if \<exists>d \<in> set shp. d < 0 then (Inl (ValueError NegativeDimensions), w)
      else (Inr \<lparr>buf = next_buf w, ashape = shp, adtype = dt, aorder = ord\<rparr>,
            w\<lparr>next_buf := Suc (next_buf w)\<rparr>))"

text \<open>
  \<^verbatim>\<open>a.reshape(shape)\<close> returns a view of the same memory. One dimension may be \<open>-1\<close>
  and is then inferred from the others; any other mismatch of the total size is a
  \<^verbatim>\<open>ValueError\<close>.
\<close>

definition ndarray_reshape :: "ndarray \<Rightarrow> int list \<Rightarrow> py_error + ndarray" where
  "ndarray_reshape a shp =
     (let total = prod_list (ashape a);
          known = prod_list (filter (\<lambda>d. d \<noteq> -1) shp)
      in if \<exists>d \<in> set shp. d < -1 then Inl (ValueError NegativeDimensions)
         else if count_list shp (-1) = 0 then
           (if known = total then Inr (a\<lparr>ashape := shp\<rparr>)
            else Inl (ValueError CannotReshape))
         else if count_list shp (-1) = 1 \<and> known \<noteq> 0 \<and> total mod known = 0 then
           Inr (a\<lparr>ashape := map (\<lambda>d. if d = -1 then total div known else d) shp\<rparr>)
         else Inl (ValueError CannotReshape))"

subsection \<open>Construction\<close>

text \<open>
  The \<^verbatim>\<open>shape\<close> argument of \<^verbatim>\<open>__init__\<close> is one integer or a sequence of integers.
  \<^verbatim>\<open>
        try:
            size = 1
            for d in shape:
                size *= d
        except TypeError:
            assert isinstance(shape, (int, long))
            size = shape
            shape = (shape,)
  \<close>
  Iterating over an integer raises the \<^verbatim>\<open>TypeError\<close>, and the assertion then holds.
\<close>

datatype shape_arg = ShapeInt int | ShapeSeq "int list"

fun shape_size :: "shape_arg \<Rightarrow> int \<times> int list" where
  "shape_size (ShapeSeq ds) = (foldl (\<lambda>size d. size * d) 1 ds, ds)"
| "shape_size (ShapeInt n) = (n, [n])"

text \<open>
  The host mirror of the new handle:
  \<^verbatim>\<open>
        if base is not None:
            self.array = base.array.reshape(shape)
        else:
            if alloc_arr:
                if stream is None:
                    stream = self.stream
                self.array = numpy.empty(self.shape, self.dtype, self.order)
                stream._buffer_allocate(self.array)
  \<close>
  (\<^verbatim>\<open>stream\<close> is not \<^verbatim>\<open>None\<close> here, the assertion before has checked it.)
\<close>

definition init_array ::
  "world \<Rightarrow> int list \<Rightarrow> dtype \<Rightarrow> mem_order \<Rightarrow> bool \<Rightarrow> nat option \<Rightarrow> OffloadStream
    \<Rightarrow> (ndarray option) outcome" where
  "init_array w shp dt ord alloc_arr b st =
     (case b of
        Some r \<Rightarrow>
          (case array (heap w r) of
             None \<Rightarrow> (Inl AttributeError, w)
           | Some a \<Rightarrow>
               (case ndarray_reshape a shp of
                  Inl e \<Rightarrow> (Inl e, w)
                | Inr v \<Rightarrow> (Inr (Some v), w)))
      | None \<Rightarrow>
          if alloc_arr then
            (case numpy_empty w shp dt ord of
               (Inl e, w1) \<Rightarrow> (Inl e, w1)
             | (Inr a, w1) \<Rightarrow> (Inr (Some a), enqueue w1 st (buffer_allocate a)))
          else (Inr None, w))"

text \<open>
  \<^verbatim>\<open>OffloadArray(shape, dtype, order, alloc_arr, base, device, stream)\<close>: the two
  assertions, the size, the mirror, and last the library of the device
  (\<^verbatim>\<open>_offload_libraries[device.device_id]\<close>, a \<^verbatim>\<open>KeyError\<close> when the device has none).
  A successful call stores the new object under a fresh reference and returns it.
\<close>

definition OffloadArray_init ::
  "world \<Rightarrow> shape_arg \<Rightarrow> dtype \<Rightarrow> mem_order \<Rightarrow> bool \<Rightarrow> nat option
    \<Rightarrow> OffloadDevice option \<Rightarrow> OffloadStream option \<Rightarrow> nat outcome" where
  "OffloadArray_init w shp dt ord alloc_arr b dev st =
     (case dev of
        None \<Rightarrow> (Inl AssertionError, w)
      | Some d \<Rightarrow>
     (case st of
        None \<Rightarrow> (Inl AssertionError, w)
      | Some s \<Rightarrow>
     (case init_array w (snd (shape_size shp)) dt ord alloc_arr b s of
        (Inl e, w1) \<Rightarrow> (Inl e, w1)
      | (Inr arr, w1) \<Rightarrow>
     (case offload_libraries w1 (device_id d) of
        None \<Rightarrow> (Inl KeyError, w1)
      | Some lib \<Rightarrow>
          (Inr (next_ref w1),
           w1\<lparr>heap := (heap w1)(next_ref w1 :=
                  \<lparr>order = ord, dtype = dt, base = b, device = d, stream = s,
                   size_oa = fst (shape_size shp), shape = snd (shape_size shp),
                   nbytes = itemsize dt * fst (shape_size shp),
                   array = arr, library = lib\<rparr>),
              next_ref := Suc (next_ref w1)\<rparr>)))))"

subsection \<open>reshape and ravel\<close>

text \<open>
  \<^verbatim>\<open>reshape(self, *shape)\<close> is called with the dimensions as separate integers
  (\<open>Dims\<close>) or with one tuple or list of integers (\<open>OneSeq\<close>). \<^verbatim>\<open>shape[0]\<close> on no
  argument at all is an \<^verbatim>\<open>IndexError\<close>. \<^verbatim>\<open>shape\<close> is a tuple in both cases, so the loop
  over it raises no \<^verbatim>\<open>TypeError\<close> and the \<^verbatim>\<open>except\<close> branch is never entered.
\<close>

datatype reshape_args = Dims "int list" | OneSeq "int list"

definition reshape :: "world \<Rightarrow> nat \<Rightarrow> reshape_args \<Rightarrow> nat outcome" where
  "reshape w self args =
     (case args of
        Dims [] \<Rightarrow> (Inl IndexError, w)
      | _ \<Rightarrow>
        (let shp = (case args of OneSeq ds \<Rightarrow> ds | Dims ds \<Rightarrow> ds);
             size = foldl (\<lambda>size d. size * d) 1 shp
         in if size \<noteq> size_oa (heap w self) then (Inl (ValueError TotalSizeUnchanged), w)
            else OffloadArray_init w (ShapeSeq shp) (dtype (heap w self)) (order (heap w self))
                   False (Some self) (Some (device (heap w self))) None))"

definition ravel :: "world \<Rightarrow> nat \<Rightarrow> nat outcome" where
  "ravel w self = reshape w self (Dims [size_oa (heap w self)])"

subsection \<open>Destruction, synchronisation, stream assignment\<close>

text \<open>
  \<^verbatim>\<open>
    def __del__(self):
        if self.base is None:
            self.stream._buffer_release(self.array)
  \<close>
\<close>

definition del :: "world \<Rightarrow> nat \<Rightarrow> world" where
  "del w self =
     (if base (heap w self) = None
      then enqueue w (stream (heap w self)) (buffer_release (array (heap w self)))
      else w)"

text \<open>
  What a method returns to its caller: \<^verbatim>\<open>None\<close> or a reference to a handle.
  The decorator \<^verbatim>\<open>@trace\<close> of \<^verbatim>\<open>update_device\<close> and \<^verbatim>\<open>update_host\<close> comes from another
  module; it is taken to hand the result of the wrapped method through.
\<close>

datatype py_ret = PyNone | PyRef nat

definition update_device :: "world \<Rightarrow> nat \<Rightarrow> py_ret outcome" where
  "update_device w self =
     (Inr PyNone,
      enqueue w (stream (heap w self)) (buffer_update_on_target (array (heap w self))))"

definition update_host :: "world \<Rightarrow> nat \<Rightarrow> py_ret outcome" where
  "update_host w self =
     (Inr (PyRef self),
      enqueue w (stream (heap w self)) (buffer_update_on_host (array (heap w self))))"

text \<open>
  \<^verbatim>\<open>
        if stream.get_device() is not self.device:
            raise ValueError("Cannot assign a stream from different device ...")
        self.stream = stream
  \<close>
  \<^verbatim>\<open>is not\<close> compares the identity of the two device objects.
\<close>

definition assign_stream :: "world \<Rightarrow> nat \<Rightarrow> OffloadStream \<Rightarrow> py_ret outcome" where
  "assign_stream w self s =
     (if dev_ref (get_device s) \<noteq> dev_ref (device (heap w self))
      then (Inl (ValueError DifferentDevice), w)
      else (Inr PyNone, w\<lparr>heap := (heap w)(self := (heap w self)\<lparr>stream := s\<rparr>)\<rparr>))"

subsection \<open>Element-wise binary operators\<close>

text \<open>
  The right operand: another handle, a \<^verbatim>\<open>numpy.ndarray\<close> of the caller, or anything
  else, which the source treats as a scalar.
\<close>

datatype operand = Handle nat | HostArray ndarray | Scalar py_value

text \<open>
  \<^verbatim>\<open>__add__\<close>, \<^verbatim>\<open>__sub__\<close>, \<^verbatim>\<open>__mul__\<close> and \<^verbatim>\<open>__pow__\<close> have the same body up to the kernel
  they invoke and the wording of the shape message, so the model has one body, \<open>binop\<close>,
  with the kernel as a parameter. \<^verbatim>\<open>map_data_types\<close> is imported from \<^verbatim>\<open>_misc\<close>, a module
  that is not part of the sources at hand: it is the parameter \<open>mdt\<close>, which may raise.
  The first part validates the operand and yields \<^verbatim>\<open>(y, incy, incr)\<close>:
  \<^verbatim>\<open>
        if isinstance(other, OffloadArray):
            if self.array.shape != other.array.shape:
                raise ValueError("shapes of the arrays need to match: ...")
            if self.dtype != other.dtype:
                raise ValueError("Data types do not match: ...")
            y = other.array
            incy = int(1)
            incr = int(1)
        elif isinstance(other, numpy.ndarray):
            if self.array.shape != other.shape:
                raise ValueError("shapes of the arrays need to match: ...")
            if self.dtype != other.dtype:
                raise ValueError("Data types do not match: ...")
            y = other
            incy = int(1)
            incr = int(1)
        else:
            # scalar
            if self.dtype != type(other):
                raise ValueError("Data types do not match: ...")
            y = other
            incy = int(0)
            incr = int(1)
  \<close>
  Reading \<^verbatim>\<open>.shape\<close> of a mirror that is \<^verbatim>\<open>None\<close> is an \<^verbatim>\<open>AttributeError\<close>.
\<close>

definition check_operand :: "world \<Rightarrow> nat \<Rightarrow> operand \<Rightarrow> py_error + (arg \<times> int \<times> int)" where
  "check_operand w self other =
     (case other of
        Handle r \<Rightarrow>
          (case array (heap w self) of
             None \<Rightarrow> Inl AttributeError
           | Some x \<Rightarrow>
          (case array (heap w r) of
             None \<Rightarrow> Inl AttributeError
           | Some y \<Rightarrow>
               if ashape x \<noteq> ashape y then Inl (ValueError ShapesNeedToMatch)
               else if dtype (heap w self) \<noteq> dtype (heap w r)
                 then Inl (ValueError DataTypesDoNotMatch)
               else Inr (ArgArray (Some y), 1, 1)))
      | HostArray y \<Rightarrow>
          (case array (heap w self) of
             None \<Rightarrow> Inl AttributeError
           | Some x \<Rightarrow>
               if ashape x \<noteq> ashape y then Inl (ValueError ShapesNeedToMatch)
               else if dtype (heap w self) \<noteq> adtype y
                 then Inl (ValueError DataTypesDoNotMatch)
               else Inr (ArgArray (Some y), 1, 1))
      | Scalar v \<Rightarrow>
          if \<not> dtype_eq (dtype (heap w self)) (type_of v)
            then Inl (ValueError DataTypesDoNotMatch)
          else Inr (ArgValue v, 0, 1))"

text \<open>
  \<^verbatim>\<open>
        dt = map_data_types(self.dtype)
        n = int(self.size)
        x = self.array
        incx = int(1)
        ...
        result = OffloadArray(self.shape, self.dtype, device=self.device,
                              stream=self.stream)
        self.stream.invoke(self._library.pymic_offload_array_add,
                           dt, n, x, incx, y, incy, result.array, incr)
        return result
  \<close>
\<close>

definition binop ::
  "kernel \<Rightarrow> (dtype \<Rightarrow> py_error + int) \<Rightarrow> world \<Rightarrow> nat \<Rightarrow> operand \<Rightarrow> nat outcome" where
  "binop k mdt w self other =
     (case mdt (dtype (heap w self)) of
        Inl e \<Rightarrow> (Inl e, w)
      | Inr dt \<Rightarrow>
     (case check_operand w self other of
        Inl e \<Rightarrow> (Inl e, w)
      | Inr (y, incy, incr) \<Rightarrow>
     (case OffloadArray_init w (ShapeSeq (shape (heap w self))) (dtype (heap w self)) order_C
             True None (Some (device (heap w self))) (Some (stream (heap w self))) of
        (Inl e, w1) \<Rightarrow> (Inl e, w1)
      | (Inr result, w1) \<Rightarrow>
          (Inr result,
           enqueue w1 (stream (heap w1 self))
             (invoke (library (heap w1 self)) k
                [ArgInt dt, ArgInt (size_oa (heap w self)), ArgArray (array (heap w self)),
                 ArgInt 1, y, ArgInt incy, ArgArray (array (heap w1 result)),
                 ArgInt incr])))))"

definition add :: "(dtype \<Rightarrow> py_error + int) \<Rightarrow> world \<Rightarrow> nat \<Rightarrow> operand \<Rightarrow> nat outcome" where
  "add = binop pymic_offload_array_add"

definition sub :: "(dtype \<Rightarrow> py_error + int) \<Rightarrow> world \<Rightarrow> nat \<Rightarrow> operand \<Rightarrow> nat outcome" where
  "sub = binop pymic_offload_array_sub"

definition mul :: "(dtype \<Rightarrow> py_error + int) \<Rightarrow> world \<Rightarrow> nat \<Rightarrow> operand \<Rightarrow> nat outcome" where
  "mul = binop pymic_offload_array_mul"

definition pow :: "(dtype \<Rightarrow> py_error + int) \<Rightarrow> world \<Rightarrow> nat \<Rightarrow> operand \<Rightarrow> nat outcome" where
  "pow = binop pymic_offload_array_pow"

subsection \<open>fill, zero, one\<close>

text \<open>
  \<^verbatim>\<open>
        if self.dtype != type(value):
            raise ValueError("Data type do not match: ...")
        dt = map_data_types(self.dtype)
        n = int(self.size)
        x = self
        self.stream.invoke(self._library.pymic_offload_array_fill, dt, n, x, value)
        return self
  \<close>
\<close>

definition fill ::
  "(dtype \<Rightarrow> py_error + int) \<Rightarrow> world \<Rightarrow> nat \<Rightarrow> py_value \<Rightarrow> py_ret outcome" where
  "fill mdt w self v =
     (if \<not> dtype_eq (dtype (heap w self)) (type_of v)
        then (Inl (ValueError DataTypesDoNotMatch), w)
      else
        (case mdt (dtype (heap w self)) of
           Inl e \<Rightarrow> (Inl e, w)
         | Inr dt \<Rightarrow>
             (Inr (PyRef self),
              enqueue w (stream (heap w self))
                (invoke (library (heap w self)) pymic_offload_array_fill
                   [ArgInt dt, ArgInt (size_oa (heap w self)), ArgHandle self, ArgValue v]))))"

text \<open>
  \<^verbatim>\<open>
        if zero_value is None:
            if self.dtype == int:
                zero_value = 0
            elif self.dtype == float:
                zero_value = 0.0
            elif self.dtype == complex:
                zero_value = complex(0.0, 0.0)
            else:
                raise ValueError("Do not know representation of zero "
                                 "for type {0}".format(self.dtype))
        return self.fill(zero_value)
  \<close>
\<close>

definition zero ::
  "(dtype \<Rightarrow> py_error + int) \<Rightarrow> world \<Rightarrow> nat \<Rightarrow> py_value option \<Rightarrow> py_ret outcome" where
  "zero mdt w self zero_value =
     (case zero_value of
        Some v \<Rightarrow> fill mdt w self v
      | None \<Rightarrow>
          if dtype_eq (dtype (heap w self)) py_int then fill mdt w self (IntV 0)
          else if dtype_eq (dtype (heap w self)) py_float then fill mdt w self (FloatV 0)
          else if dtype_eq (dtype (heap w self)) py_complex
            then fill mdt w self (ComplexV (Complex 0 0))
          else (Inl (ValueError NoRepresentationOfZero), w))"

text \<open>
  \<^verbatim>\<open>
        if one_value is None:
            if self.dtype == int:
                one_value = 1
            elif self.dtype == float:
                one_value = 1.0
            elif self.dtype == complex:
                one_value = complex(1.0, 0.0)
            else:
                raise ValueError("Do not know representation of one "
                                 "for type {0}".format(dtype))
        return self.fill(one_value)
  \<close>
  The last branch formats the message with \<^verbatim>\<open>dtype\<close>, a name that is bound neither in the
  method nor in the module: evaluating the argument of \<^verbatim>\<open>raise\<close> is a \<^verbatim>\<open>NameError\<close>, and
  the \<^verbatim>\<open>ValueError\<close> is never built.
\<close>

definition one ::
  "(dtype \<Rightarrow> py_error + int) \<Rightarrow> world \<Rightarrow> nat \<Rightarrow> py_value option \<Rightarrow> py_ret outcome" where
  "one mdt w self one_value =
     (case one_value of
        Some v \<Rightarrow> fill mdt w self v
      | None \<Rightarrow>
          if dtype_eq (dtype (heap w self)) py_int then fill mdt w self (IntV 1)
          else if dtype_eq (dtype (heap w self)) py_float then fill mdt w self (FloatV 1)
          else if dtype_eq (dtype (heap w self)) py_complex
            then fill mdt w self (ComplexV (Complex 1 0))
          else (Inl NameError, w))"

subsection \<open>Slice assignment\<close>

text \<open>
  \<^verbatim>\<open>
        lb = min(i, self.size)
        ub = min(j, self.size)
        dt = map_data_types(self.dtype)

        if isinstance(sequence, OffloadArray):
            self.stream.invoke(self._library.pymic_offload_array_setslice,
                               dt, lb, ub, self, sequence)
        elif isinstance(sequence, numpy.ndarray):
            offl_sequence = self.stream.bind(sequence)
            self.stream.invoke(self._library.pymic_offload_array_setslice,
                               dt, lb, ub, self, offl_sequence)
        else:
            self.fill(sequence)
  \<close>
  \<^verbatim>\<open>stream.bind\<close> belongs to the stream's module, which is not part of the sources at
  hand. It is the parameter \<open>bind\<close>: given the world, the stream and the host array it
  raises or returns the reference of the handle that wraps the array, and the world
  after the call.
\<close>

definition setslice ::
  "(dtype \<Rightarrow> py_error + int) \<Rightarrow> (world \<Rightarrow> OffloadStream \<Rightarrow> ndarray \<Rightarrow> nat outcome)
    \<Rightarrow> world \<Rightarrow> nat \<Rightarrow> int \<Rightarrow> int \<Rightarrow> operand \<Rightarrow> py_ret outcome" where
  "setslice mdt bind w self i j sequence =
     (let lb = min i (size_oa (heap w self));
          ub = min j (size_oa (heap w self))
      in case mdt (dtype (heap w self)) of
           Inl e \<Rightarrow> (Inl e, w)
         | Inr dt \<Rightarrow>
             (case sequence of
                Handle r \<Rightarrow>
                  (Inr PyNone,
                   enqueue w (stream (heap w self))
                     (invoke (library (heap w self)) pymic_offload_array_setslice
                        [ArgInt dt, ArgInt lb, ArgInt ub, ArgHandle self, ArgHandle r]))
              | HostArray a \<Rightarrow>
                  (case bind w (stream (heap w self)) a of
                     (Inl e, w1) \<Rightarrow> (Inl e, w1)
                   | (Inr offl_sequence, w1) \<Rightarrow>
                       (Inr PyNone,
                        enqueue w1 (stream (heap w1 self))
                          (invoke (library (heap w1 self)) pymic_offload_array_setslice
                             [ArgInt dt, ArgInt lb, ArgInt ub, ArgHandle self,
                              ArgHandle offl_sequence])))
              | Scalar v \<Rightarrow>
                  (case fill mdt w self v of
                     (Inl e, w1) \<Rightarrow> (Inl e, w1)
                   | (Inr _, w1) \<Rightarrow> (Inr PyNone, w1))))"

subsection \<open>Notions the properties are stated with\<close>

text \<open>
  What the constructor establishes for a handle with a mirror: the mirror has the
  handle's shape and element type.
\<close>

definition mirrored :: "OffloadArray \<Rightarrow> bool" where
  "mirrored h = (case array h of None \<Rightarrow> False
                 | Some a \<Rightarrow> ashape a = shape h \<and> adtype a = dtype h)"

text \<open>Shape and element type of an array operand; a scalar has neither.\<close>

fun operand_shape :: "world \<Rightarrow> operand \<Rightarrow> int list option" where
  "operand_shape w (Handle r) = Some (shape (heap w r))"
| "operand_shape w (HostArray y) = Some (ashape y)"
| "operand_shape w (Scalar v) = None"

fun operand_dtype :: "world \<Rightarrow> operand \<Rightarrow> dtype option" where
  "operand_dtype w (Handle r) = Some (dtype (heap w r))"
| "operand_dtype w (HostArray y) = Some (adtype y)"
| "operand_dtype w (Scalar v) = None"

fun operand_mirrored :: "world \<Rightarrow> operand \<Rightarrow> bool" where
  "operand_mirrored w (Handle r) = mirrored (heap w r)"
| "operand_mirrored w (HostArray y) = True"
| "operand_mirrored w (Scalar v) = True"

text \<open>The stride of the right operand as the specification words it.\<close>

fun right_stride :: "operand \<Rightarrow> int" where
  "right_stride (Handle r) = 1"
| "right_stride (HostArray y) = 1"
| "right_stride (Scalar v) = 0"




text \<open>
  Two readings of a slice bound against the size \<open>n\<close>: \<open>clamped\<close> brings it into
  \<open>[0, n]\<close>, as the specification words it; \<open>lowered\<close> only lowers a bound above \<open>n\<close> to
  \<open>n\<close> and lets any other bound pass.
\<close>

definition clamped :: "int \<Rightarrow> int \<Rightarrow> int" where
  "clamped n i = max 0 (min i n)"

definition lowered :: "int \<Rightarrow> int \<Rightarrow> int" where
  "lowered n i = (if n < i then n else i)"

subsection \<open>A small world to evaluate the methods in\<close>

text \<open>
  One device with its library, one stream on it, and three handles: an owner of six
  \<^verbatim>\<open>float64\<close> elements (reference 0, and every reference not listed), a 2 by 3 view of
  it (reference 1), and an owner of four \<^verbatim>\<open>float32\<close> elements (reference 2). A second
  device and a stream on it serve as the foreign device.
\<close>

definition ex_device :: OffloadDevice where
  "ex_device = \<lparr>dev_ref = 0, device_id = 0\<rparr>"

definition ex_other_device :: OffloadDevice where
  "ex_other_device = \<lparr>dev_ref = 1, device_id = 1\<rparr>"

definition ex_stream :: OffloadStream where
  "ex_stream = \<lparr>stream_ref = 0, get_device = ex_device\<rparr>"

definition ex_stream2 :: OffloadStream where
  "ex_stream2 = \<lparr>stream_ref = 1, get_device = ex_device\<rparr>"

definition ex_other_stream :: OffloadStream where
  "ex_other_stream = \<lparr>stream_ref = 2, get_device = ex_other_device\<rparr>"

definition ex_array :: ndarray where
  "ex_array = \<lparr>buf = 0, ashape = [6], adtype = float64, aorder = order_C\<rparr>"

definition ex_owner :: OffloadArray where
  "ex_owner = \<lparr>order = order_C, dtype = float64, base = None, device = ex_device,
     stream = ex_stream, size_oa = 6, shape = [6], nbytes = 48, array = Some ex_array,
     library = 0\<rparr>"

definition ex_view :: OffloadArray where
  "ex_view = \<lparr>order = order_C, dtype = float64, base = Some 0, device = ex_device,
     stream = ex_stream, size_oa = 6, shape = [2, 3], nbytes = 48,
     array = Some (ex_array\<lparr>ashape := [2, 3]\<rparr>), library = 0\<rparr>"

definition ex_single :: OffloadArray where
  "ex_single = \<lparr>order = order_C, dtype = float32, base = None, device = ex_device,
     stream = ex_stream, size_oa = 4, shape = [4], nbytes = 16,
     array = Some \<lparr>buf = 1, ashape = [4], adtype = float32, aorder = order_C\<rparr>,
     library = 0\<rparr>"

definition ex_world :: world where
  "ex_world = \<lparr>heap = (\<lambda>_. ex_owner)(1 := ex_view, 2 := ex_single), next_ref = 3,
     next_buf = 2, cmds = [], offload_libraries = [0 \<mapsto> 0]\<rparr>"

text \<open>
  Stand-ins for the two functions of other modules: a type tag for every element type,
  and a \<^verbatim>\<open>bind\<close> that wraps the host array in a new handle on the stream.
\<close>

definition ex_map_data_types :: "dtype \<Rightarrow> py_error + int" where
  "ex_map_data_types d =
     Inr (if d = int64 then 0 else if d = float64 then 1 else if d = complex128 then 2 else 3)"

definition ex_bind :: "world \<Rightarrow> OffloadStream \<Rightarrow> ndarray \<Rightarrow> nat outcome" where
  "ex_bind w s a =
     (Inr (next_ref w),
      enqueue
        (w\<lparr>heap := (heap w)(next_ref w :=
              \<lparr>order = aorder a, dtype = adtype a, base = None, device = get_device s,
               stream = s, size_oa = prod_list (ashape a), shape = ashape a,
               nbytes = itemsize (adtype a) * prod_list (ashape a), array = Some a,
               library = 0\<rparr>),
           next_ref := Suc (next_ref w)\<rparr>)
        s (buffer_allocate a))"

section \<open>Properties\<close>

subsection \<open>The size loop\<close>

lemma foldl_mult_prod_list:
  "foldl (\<lambda>size d. size * d) a ds = a * prod_list (ds :: int list)"
  by (induction ds arbitrary: a) (simp_all add: mult.assoc)

subsection \<open>reshape and ravel\<close>

text \<open>
  Claim C6. For every handle \<open>h\<close> and every new shape whose element product differs from
  the size of \<open>h\<close>, \<^verbatim>\<open>h.reshape(new_shape)\<close> raises the \<^verbatim>\<open>ValueError\<close> "total size of
  reshaped array must be unchanged", whether the shape is passed as one sequence or as
  separate integers, and the world is as before: \<open>h\<close> is unchanged and no view has been
  constructed.
\<close>

theorem reshape_size_mismatch:
  assumes "prod_list ds \<noteq> size_oa (heap w h)"
  shows "reshape w h (OneSeq ds) = (Inl (ValueError TotalSizeUnchanged), w)
       \<and> (ds \<noteq> [] \<longrightarrow> reshape w h (Dims ds) = (Inl (ValueError TotalSizeUnchanged), w))"
  using assms by (cases ds) (simp_all add: reshape_def foldl_mult_prod_list)

theorem reshape_size_mismatch_witness:
  "reshape ex_world 0 (OneSeq [4, 2]) = (Inl (ValueError TotalSizeUnchanged), ex_world)
   \<and> reshape ex_world 0 (Dims [4, 2]) = (Inl (ValueError TotalSizeUnchanged), ex_world)"
proof -
  have "prod_list [4, 2] \<noteq> size_oa (heap ex_world 0)"
    by (simp add: ex_world_def ex_owner_def)
  from reshape_size_mismatch [OF this] show ?thesis by simp
qed

text \<open>
  When the sizes agree, \<^verbatim>\<open>reshape\<close> calls the constructor with \<^verbatim>\<open>device=self.device\<close> but
  without a stream, and the constructor's \<^verbatim>\<open>assert stream is not None\<close> fails: no view
  is ever returned.
\<close>

lemma reshape_same_size_fails:
  assumes "prod_list ds = size_oa (heap w h)"
  shows "reshape w h (OneSeq ds) = (Inl AssertionError, w)"
  using assms by (simp add: reshape_def foldl_mult_prod_list OffloadArray_init_def)

lemma ravel_fails: "ravel w h = (Inl AssertionError, w)"
  by (simp add: ravel_def reshape_def OffloadArray_init_def)

text \<open>
  Claim C1, evaluated on the owner of six elements: reshaping it to 2 by 3, a shape of
  the same size, and flattening it both end in the \<^verbatim>\<open>AssertionError\<close> of the constructor
  instead of returning a view.
\<close>

theorem reshape_view_assertion:
  "reshape ex_world 0 (OneSeq [2, 3]) = (Inl AssertionError, ex_world)
   \<and> ravel ex_world 0 = (Inl AssertionError, ex_world)"
  by (simp add: ravel_def reshape_def OffloadArray_init_def ex_world_def ex_owner_def)

subsection \<open>Synchronisation\<close>

text \<open>
  Claim C10. For every handle, \<^verbatim>\<open>update_device()\<close> returns \<^verbatim>\<open>None\<close> and \<^verbatim>\<open>update_host()\<close>
  returns the handle itself; each has asked the handle's stream for the transfer of the
  host mirror. A call chained on the result of \<^verbatim>\<open>update_device()\<close> therefore has no handle
  to act on.
\<close>

theorem update_device_returns_none:
  "update_device w h =
     (Inr PyNone, enqueue w (stream (heap w h)) (buffer_update_on_target (array (heap w h))))
   \<and> update_host w h =
     (Inr (PyRef h), enqueue w (stream (heap w h)) (buffer_update_on_host (array (heap w h))))"
  by (simp add: update_device_def update_host_def)

subsection \<open>Destruction\<close>

text \<open>
  Claim C7. At destruction a handle asks its stream to release the device buffer that
  belongs to its host mirror if and only if it is an owner (its \<open>base\<close> is unset);
  destroying a view leaves the world as it is, so no release is triggered.
\<close>

theorem del_releases_iff_owner:
  "(cmds (del w h) = cmds w @ [(stream (heap w h), buffer_release (array (heap w h)))]
      \<longleftrightarrow> base (heap w h) = None)
   \<and> (base (heap w h) \<noteq> None \<longrightarrow> del w h = w)"
  by (simp add: del_def enqueue_def)

theorem del_releases_iff_owner_witness:
  "cmds (del ex_world 0) = [(ex_stream, buffer_release (Some ex_array))]
   \<and> del ex_world 1 = ex_world"
  using del_releases_iff_owner [of ex_world 0] del_releases_iff_owner [of ex_world 1]
  by (simp add: ex_world_def ex_owner_def ex_view_def)

subsection \<open>Stream assignment\<close>

text \<open>
  Claim C8. For every handle \<open>h\<close> and stream \<open>s\<close>: when the device of \<open>s\<close> is not the
  device of \<open>h\<close>, \<^verbatim>\<open>h.assign_stream(s)\<close> raises the \<^verbatim>\<open>ValueError\<close> about the different
  device and the world, the stream of \<open>h\<close> included, is as before; when it is the same
  device, the call returns and all that has changed is the \<open>stream\<close> attribute of \<open>h\<close>,
  now \<open>s\<close>: no other handle, no host buffer and no stream command is touched.
\<close>

theorem assign_stream_same_device:
  "(dev_ref (get_device s) \<noteq> dev_ref (device (heap w h)) \<longrightarrow>
      assign_stream w h s = (Inl (ValueError DifferentDevice), w))
   \<and> (dev_ref (get_device s) = dev_ref (device (heap w h)) \<longrightarrow>
      (\<exists>w'. assign_stream w h s = (Inr PyNone, w')
         \<and> heap w' h = (heap w h)\<lparr>stream := s\<rparr>
         \<and> (\<forall>r. r \<noteq> h \<longrightarrow> heap w' r = heap w r)
         \<and> cmds w' = cmds w \<and> next_buf w' = next_buf w \<and> next_ref w' = next_ref w))"
  by (simp add: assign_stream_def)

theorem assign_stream_same_device_witness:
  "assign_stream ex_world 0 ex_other_stream = (Inl (ValueError DifferentDevice), ex_world)
   \<and> (\<exists>w'. assign_stream ex_world 0 ex_stream2 = (Inr PyNone, w')
         \<and> stream (heap w' 0) = ex_stream2 \<and> array (heap w' 0) = Some ex_array
         \<and> cmds w' = [])"
  using assign_stream_same_device [of ex_other_stream ex_world 0]
    assign_stream_same_device [of ex_stream2 ex_world 0]
  by (auto simp add: ex_world_def ex_owner_def ex_stream2_def ex_other_stream_def
      ex_device_def ex_other_device_def)

subsection \<open>Construction\<close>





text \<open>The owner path of the constructor establishes \<open>mirrored\<close>.\<close>

lemma init_mirrored:
  assumes "OffloadArray_init w shp dt ord True None d s = (Inr r, w')"
  shows "mirrored (heap w' r)"
  using assms
  by (auto simp add: OffloadArray_init_def init_array_def numpy_empty_def enqueue_def
      mirrored_def split: option.splits if_splits)

subsection \<open>Binary operators: validation\<close>

lemma binop_cases:
  assumes "op \<in> {add, sub, mul, pow}"
  obtains k where "op = binop k"
  using assms by (auto simp add: add_def sub_def mul_def pow_def)

lemma check_operand_shape:
  assumes "mirrored (heap w self)" and "operand_mirrored w other"
    and "operand_shape w other = Some s" and "s \<noteq> shape (heap w self)"
  shows "check_operand w self other = Inl (ValueError ShapesNeedToMatch)"
  using assms
  by (cases other) (auto simp add: check_operand_def mirrored_def split: option.splits)

lemma check_operand_dtype:
  assumes "mirrored (heap w self)" and "operand_mirrored w other"
    and "operand_shape w other = Some (shape (heap w self))"
    and "operand_dtype w other = Some t" and "t \<noteq> dtype (heap w self)"
  shows "check_operand w self other = Inl (ValueError DataTypesDoNotMatch)"
  using assms
  by (cases other) (auto simp add: check_operand_def mirrored_def split: option.splits)

text \<open>
  Claim C2. For each of the operators add, subtract, multiply and power, applied to a
  handle \<open>self\<close> and an operand \<open>other\<close> that is a handle or a foreign host array (both
  handles with a host mirror of their own shape and element type, and the element type
  of \<open>self\<close> one that \<^verbatim>\<open>map_data_types\<close> accepts): if the shape of \<open>other\<close> differs from
  the shape of \<open>self\<close>, the operator raises the \<^verbatim>\<open>ValueError\<close> "shapes of the arrays need
  to match"; if the shapes agree and the element types differ, it raises the
  \<^verbatim>\<open>ValueError\<close> "Data types do not match". In both cases the world after the call is
  the world before it: no result handle has been allocated, no kernel enqueued, and
  \<open>self\<close> and \<open>other\<close> are unchanged. (The shape is checked first, so an operand that
  differs in both gets the shape error.)
\<close>

theorem binop_validation:
  assumes "op \<in> {add, sub, mul, pow}"
    and "mdt (dtype (heap w self)) = Inr dt"
    and "mirrored (heap w self)" and "operand_mirrored w other"
    and "operand_shape w other = Some s" and "operand_dtype w other = Some t"
  shows "(s \<noteq> shape (heap w self) \<longrightarrow>
            op mdt w self other = (Inl (ValueError ShapesNeedToMatch), w))
       \<and> (s = shape (heap w self) \<and> t \<noteq> dtype (heap w self) \<longrightarrow>
            op mdt w self other = (Inl (ValueError DataTypesDoNotMatch), w))"
proof -
  from assms(1) obtain k where op: "op = binop k" by (rule binop_cases)
  have "op mdt w self other = (Inl (ValueError ShapesNeedToMatch), w)"
    if "s \<noteq> shape (heap w self)"
    using check_operand_shape [OF assms(3,4,5) that] assms(2)
    by (simp add: op binop_def)
  moreover have "op mdt w self other = (Inl (ValueError DataTypesDoNotMatch), w)"
    if "s = shape (heap w self)" and "t \<noteq> dtype (heap w self)"
    using check_operand_dtype [OF assms(3,4) _ assms(6) that(2)] assms(5) that(1) assms(2)
    by (simp add: op binop_def)
  ultimately show ?thesis by blast
qed

theorem binop_validation_witness:
  "add ex_map_data_types ex_world 0 (Handle 1) = (Inl (ValueError ShapesNeedToMatch), ex_world)
   \<and> pow ex_map_data_types ex_world 0
        (HostArray \<lparr>buf = 7, ashape = [6], adtype = int64, aorder = order_C\<rparr>)
      = (Inl (ValueError DataTypesDoNotMatch), ex_world)"
proof -
  have m: "mirrored (heap ex_world 0)" "mirrored (heap ex_world 1)"
    by (simp_all add: mirrored_def ex_world_def ex_owner_def ex_view_def ex_array_def)
  have d: "ex_map_data_types (dtype (heap ex_world 0)) = Inr 1"
    by (simp add: ex_map_data_types_def ex_world_def ex_owner_def)
  have "add ex_map_data_types ex_world 0 (Handle 1)
          = (Inl (ValueError ShapesNeedToMatch), ex_world)"
    using binop_validation [of add ex_map_data_types ex_world 0 1 "Handle 1" "[2, 3]" float64]
      m d
    by (simp add: ex_world_def ex_owner_def ex_view_def)
  moreover have "pow ex_map_data_types ex_world 0
        (HostArray \<lparr>buf = 7, ashape = [6], adtype = int64, aorder = order_C\<rparr>)
      = (Inl (ValueError DataTypesDoNotMatch), ex_world)"
    using binop_validation [of pow ex_map_data_types ex_world 0 1
        "HostArray \<lparr>buf = 7, ashape = [6], adtype = int64, aorder = order_C\<rparr>" "[6]" int64]
      m d
    by (simp add: ex_world_def ex_owner_def)
  ultimately show ?thesis by simp
qed

subsection \<open>Binary operators: the dispatch encoding\<close>

lemma check_operand_strides:
  assumes "check_operand w self other = Inr (y, incy, incr)"
  shows "incy = right_stride other \<and> incr = 1"
  using assms
  by (cases other) (auto simp add: check_operand_def split: option.splits if_splits)

text \<open>
  Claim C3. Whenever one of the operators add, subtract, multiply and power returns a
  result, it has enqueued, after the allocation of the result's buffer, exactly one
  invocation of its own kernel, and the arguments of that invocation carry left stride
  1, result stride 1, and as right stride 1 for a handle or a foreign host array and 0
  for a scalar.
\<close>

theorem binop_strides:
  assumes "(op, k) \<in> {(add, pymic_offload_array_add), (sub, pymic_offload_array_sub),
                       (mul, pymic_offload_array_mul), (pow, pymic_offload_array_pow)}"
    and "op mdt w self other = (Inr r, w')"
  shows "\<exists>s a lib dt n x y res.
           cmds w' = cmds w @ [(s, buffer_allocate a),
             (s, invoke lib k [ArgInt dt, ArgInt n, x, ArgInt 1, y,
                               ArgInt (right_stride other), res, ArgInt 1])]"
proof -
  from assms(1) have op: "op = binop k"
    by (auto simp add: add_def sub_def mul_def pow_def)
  from assms(2) obtain dt where dt: "mdt (dtype (heap w self)) = Inr dt"
    by (auto simp add: op binop_def split: sum.splits)
  from assms(2) dt obtain y incy incr where
    c: "check_operand w self other = Inr (y, incy, incr)"
    by (auto simp add: op binop_def split: sum.splits)
  from check_operand_strides [OF c] have i: "incy = right_stride other" "incr = 1"
    by simp_all
  from assms(2) show ?thesis
    by (auto simp add: op binop_def dt c i OffloadArray_init_def init_array_def
        numpy_empty_def enqueue_def split: sum.splits option.splits if_splits prod.splits)
qed

theorem binop_strides_witness:
  "\<exists>s a lib dt n x y res.
     cmds (snd (mul ex_map_data_types ex_world 0 (Scalar (FloatV 2)))) =
       [(s, buffer_allocate a),
        (s, invoke lib pymic_offload_array_mul
              [ArgInt dt, ArgInt n, x, ArgInt 1, y, ArgInt 0, res, ArgInt 1])]"
proof -
  have "fst (mul ex_map_data_types ex_world 0 (Scalar (FloatV 2))) = Inr 3"
    by (simp add: mul_def binop_def check_operand_def OffloadArray_init_def init_array_def
        numpy_empty_def enqueue_def ex_map_data_types_def ex_world_def ex_owner_def
        ex_device_def dtype_eq_def)
  then obtain w' where
    e: "mul ex_map_data_types ex_world 0 (Scalar (FloatV 2)) = (Inr 3, w')"
    by (cases "mul ex_map_data_types ex_world 0 (Scalar (FloatV 2))") simp
  have "(mul, pymic_offload_array_mul) \<in>
          {(add, pymic_offload_array_add), (sub, pymic_offload_array_sub),
           (mul, pymic_offload_array_mul), (pow, pymic_offload_array_pow)}"
    by simp
  moreover have "cmds ex_world = []"
    by (simp add: ex_world_def)
  ultimately show ?thesis
    using binop_strides [of mul pymic_offload_array_mul ex_map_data_types ex_world 0
        "Scalar (FloatV 2)" 3 w'] e
    by simp
qed

subsection \<open>Slice assignment\<close>

text \<open>
  Claim C4 says that the bounds are clamped to \<open>[0, size]\<close>, so that a lower bound
  below 0 is raised to 0. On the owner of six elements, \<^verbatim>\<open>h[-1:4] = v\<close> with a handle
  \<open>v\<close> hands the lower bound \<open>-1\<close> to the kernel, not the clamped bound 0.
\<close>

theorem setslice_lower_bound_counterexample:
  "snd (setslice ex_map_data_types ex_bind ex_world 0 (-1) 4 (Handle 1)) =
     enqueue ex_world ex_stream
       (invoke 0 pymic_offload_array_setslice
          [ArgInt 1, ArgInt (-1), ArgInt 4, ArgHandle 0, ArgHandle 1])
   \<and> snd (setslice ex_map_data_types ex_bind ex_world 0 (-1) 4 (Handle 1)) \<noteq>
     enqueue ex_world ex_stream
       (invoke 0 pymic_offload_array_setslice
          [ArgInt 1, ArgInt (clamped 6 (-1)), ArgInt (clamped 6 4), ArgHandle 0, ArgHandle 1])"
  by (simp add: setslice_def ex_map_data_types_def ex_world_def ex_owner_def enqueue_def
      clamped_def)

text \<open>
  Claim C4, amended. For every handle (of an element type that \<^verbatim>\<open>map_data_types\<close>
  accepts) and all integer bounds \<open>i\<close>, \<open>j\<close>, \<^verbatim>\<open>__setslice__\<close> lowers a bound above \<open>size\<close>
  to \<open>size\<close> and passes any other bound, a negative one included, on as it is. With a
  handle as source it enqueues the range-assignment kernel with these bounds, the
  handle itself and the source. With a foreign host array it first binds the array
  through the stream and then enqueues the same kernel with the bound handle as source.
  With a scalar it falls back to \<^verbatim>\<open>fill\<close>: it does what \<^verbatim>\<open>fill\<close> does, raises what \<^verbatim>\<open>fill\<close>
  raises, and returns \<^verbatim>\<open>None\<close>.
\<close>

theorem setslice_dispatch:
  assumes "mdt (dtype (heap w self)) = Inr dt"
    and "n = size_oa (heap w self)"
  shows "lowered n i \<le> n \<and> lowered n j \<le> n
       \<and> setslice mdt bind w self i j (Handle r) =
           (Inr PyNone,
            enqueue w (stream (heap w self))
              (invoke (library (heap w self)) pymic_offload_array_setslice
                 [ArgInt dt, ArgInt (lowered n i), ArgInt (lowered n j),
                  ArgHandle self, ArgHandle r]))
       \<and> (\<forall>b w1. bind w (stream (heap w self)) a = (Inr b, w1) \<longrightarrow>
            setslice mdt bind w self i j (HostArray a) =
              (Inr PyNone,
               enqueue w1 (stream (heap w1 self))
                 (invoke (library (heap w1 self)) pymic_offload_array_setslice
                    [ArgInt dt, ArgInt (lowered n i), ArgInt (lowered n j),
                     ArgHandle self, ArgHandle b])))
       \<and> setslice mdt bind w self i j (Scalar v) =
           (case fill mdt w self v of
              (Inl e, w1) \<Rightarrow> (Inl e, w1)
            | (Inr h, w1) \<Rightarrow> (Inr PyNone, w1))"
  using assms by (simp add: setslice_def lowered_def min_def)

theorem setslice_dispatch_witness:
  "setslice ex_map_data_types ex_bind ex_world 0 (-1) 9 (Handle 1) =
     (Inr PyNone,
      enqueue ex_world ex_stream
        (invoke 0 pymic_offload_array_setslice
           [ArgInt 1, ArgInt (-1), ArgInt 6, ArgHandle 0, ArgHandle 1]))
   \<and> fst (setslice ex_map_data_types ex_bind ex_world 0 2 9
        (HostArray \<lparr>buf = 7, ashape = [6], adtype = float64, aorder = order_C\<rparr>)) = Inr PyNone
   \<and> last (cmds (snd (setslice ex_map_data_types ex_bind ex_world 0 2 9
        (HostArray \<lparr>buf = 7, ashape = [6], adtype = float64, aorder = order_C\<rparr>)))) =
       (ex_stream, invoke 0 pymic_offload_array_setslice
           [ArgInt 1, ArgInt 2, ArgInt 6, ArgHandle 0, ArgHandle 3])"
proof -
  have d: "ex_map_data_types (dtype (heap ex_world 0)) = Inr 1"
    by (simp add: ex_map_data_types_def ex_world_def ex_owner_def)
  have n: "6 = size_oa (heap ex_world 0)"
    by (simp add: ex_world_def ex_owner_def)
  note t1 = setslice_dispatch [where mdt = ex_map_data_types and w = ex_world and self = 0
      and dt = 1 and n = 6 and i = "-1" and j = 9 and bind = ex_bind and r = 1, OF d n]
  note t2 = setslice_dispatch [where mdt = ex_map_data_types and w = ex_world and self = 0
      and dt = 1 and n = 6 and i = 2 and j = 9 and bind = ex_bind
      and a = "\<lparr>buf = 7, ashape = [6], adtype = float64, aorder = order_C\<rparr>", OF d n]
  have b: "\<exists>w1. ex_bind ex_world (stream (heap ex_world 0))
             \<lparr>buf = 7, ashape = [6], adtype = float64, aorder = order_C\<rparr> = (Inr 3, w1)
           \<and> stream (heap w1 0) = ex_stream \<and> library (heap w1 0) = 0"
    by (simp add: ex_bind_def ex_world_def ex_owner_def enqueue_def)
  from t1 have "setslice ex_map_data_types ex_bind ex_world 0 (-1) 9 (Handle 1) =
     (Inr PyNone,
      enqueue ex_world ex_stream
        (invoke 0 pymic_offload_array_setslice
           [ArgInt 1, ArgInt (-1), ArgInt 6, ArgHandle 0, ArgHandle 1]))"
    by (simp add: lowered_def ex_world_def ex_owner_def)
  moreover from t2 b have
    "fst (setslice ex_map_data_types ex_bind ex_world 0 2 9
        (HostArray \<lparr>buf = 7, ashape = [6], adtype = float64, aorder = order_C\<rparr>)) = Inr PyNone
     \<and> last (cmds (snd (setslice ex_map_data_types ex_bind ex_world 0 2 9
        (HostArray \<lparr>buf = 7, ashape = [6], adtype = float64, aorder = order_C\<rparr>)))) =
       (ex_stream, invoke 0 pymic_offload_array_setslice
           [ArgInt 1, ArgInt 2, ArgInt 6, ArgHandle 0, ArgHandle 3])"
    by (auto simp add: lowered_def enqueue_def)
  ultimately show ?thesis by simp
qed

subsection \<open>fill, zero and one\<close>

lemma fill_enqueues:
  assumes "dtype_eq (dtype (heap w h)) (type_of v)" and "mdt (dtype (heap w h)) = Inr dt"
  shows "fill mdt w h v =
           (Inr (PyRef h),
            enqueue w (stream (heap w h))
              (invoke (library (heap w h)) pymic_offload_array_fill
                 [ArgInt dt, ArgInt (size_oa (heap w h)), ArgHandle h, ArgValue v]))"
  using assms by (simp add: fill_def)

text \<open>
  On the three element types that equal \<^verbatim>\<open>int\<close>, \<^verbatim>\<open>float\<close> and \<^verbatim>\<open>complex\<close>, \<^verbatim>\<open>zero()\<close> fills
  with 0 and \<^verbatim>\<open>one()\<close> fills with 1 of that type.
\<close>

lemma zero_identity:
  "dtype (heap w h) = int64 \<Longrightarrow> zero mdt w h None = fill mdt w h (IntV 0)"
  "dtype (heap w h) = float64 \<Longrightarrow> zero mdt w h None = fill mdt w h (FloatV 0)"
  "dtype (heap w h) = complex128 \<Longrightarrow> zero mdt w h None = fill mdt w h (ComplexV 0)"
  by (simp_all add: zero_def dtype_eq_def zero_complex.code)

lemma one_identity:
  "dtype (heap w h) = int64 \<Longrightarrow> one mdt w h None = fill mdt w h (IntV 1)"
  "dtype (heap w h) = float64 \<Longrightarrow> one mdt w h None = fill mdt w h (FloatV 1)"
  "dtype (heap w h) = complex128 \<Longrightarrow> one mdt w h None = fill mdt w h (ComplexV 1)"
  by (simp_all add: one_def dtype_eq_def one_complex.code)

text \<open>
  On every other element type \<^verbatim>\<open>zero()\<close> raises its \<^verbatim>\<open>ValueError\<close>, and \<^verbatim>\<open>one()\<close> the
  \<^verbatim>\<open>NameError\<close> of the unbound name in its message.
\<close>

lemma zero_unsupported:
  assumes "dtype (heap w h) \<notin> {int64, float64, complex128}"
  shows "zero mdt w h None = (Inl (ValueError NoRepresentationOfZero), w)"
  using assms by (simp add: zero_def dtype_eq_def)

lemma one_unsupported:
  assumes "dtype (heap w h) \<notin> {int64, float64, complex128}"
  shows "one mdt w h None = (Inl NameError, w)"
  using assms by (simp add: one_def dtype_eq_def)

text \<open>
  Claim C5, evaluated on the owner of four \<^verbatim>\<open>float32\<close> elements, an element type without
  a known identity: \<^verbatim>\<open>zero()\<close> raises the \<^verbatim>\<open>ValueError\<close> for the unsupported type, but
  \<^verbatim>\<open>one()\<close> raises a \<^verbatim>\<open>NameError\<close> instead.
\<close>

theorem one_unsupported_name_error:
  "one ex_map_data_types ex_world 2 None = (Inl NameError, ex_world)
   \<and> zero ex_map_data_types ex_world 2 None
       = (Inl (ValueError NoRepresentationOfZero), ex_world)"
  by (simp add: one_def zero_def dtype_eq_def ex_world_def ex_single_def)

end
